theory Spec2Isabelle
  imports Complex_Main
begin

section \<open>The EV range simulator (simulator.py)\<close>

text \<open>
  Python's numbers are modelled as the spec's data model types them: the float fields
  (charge, energy, distance, duration) are real numbers, the tick counter and the stop
  counter are unbounded integers. The three history lists of the car are kept as three
  parallel lists, as in the source.
\<close>

datatype py_error = ZeroDivisionError

record Car =
  time_factor :: real
  charging :: bool
  battery_capacity :: real
  battery_charge :: real
  battery_charge_total :: real
  energy_usage_per_tick :: real
  charge_speed_per_tick :: real
  number_of_charging_stops :: int
  distance_driven :: real
  distance_per_tick :: real
  charge_level_history :: "real list"
  distance_driven_history :: "real list"
  time_history :: "int list"

record Simulation =
  time :: int
  sim_time_factor :: real
  duration :: real
  car :: Car

subsection \<open>The physics function\<close>

definition power_for_velocity :: "real \<Rightarrow> real" where
  "power_for_velocity velocity =
     (let roh = 1.2041;
          coefficient_of_drag = 0.23;
          area = 1.433 * 1.850;
          cw_a = coefficient_of_drag * area;
          force_air = cw_a * velocity * velocity / 2 * roh;
          c_r = 0.012;
          force_roll_resistance = c_r * 1950 * 9.81;
          power_standby = 1000
      in (force_air + force_roll_resistance) * velocity + power_standby)"

subsection \<open>The car\<close>

text \<open>
  \<open>Car.__init__\<close>, with its two keyword arguments passed explicitly (their defaults
  are 21000 and 70). The charge and the cumulative charge both start at the capacity.
\<close>

definition Car_init :: "real \<Rightarrow> real \<Rightarrow> real \<Rightarrow> Car" where
  "Car_init tf charge_speed_per_hour distance_per_hour =
     (let capacity = 70000;
          initial_charge = capacity;
          initial_total = initial_charge
      in
     \<lparr> time_factor = tf,
       charging = False,
       battery_capacity = capacity,
       battery_charge = initial_charge,
       battery_charge_total = initial_total,
       energy_usage_per_tick = power_for_velocity (distance_per_hour / 3.6) * tf,
       charge_speed_per_tick = charge_speed_per_hour * tf,
       number_of_charging_stops = 0,
       distance_driven = 0,
       distance_per_tick = distance_per_hour * tf,
       charge_level_history = [],
       distance_driven_history = [],
       time_history = [] \<rparr>)"

definition drive :: "Car \<Rightarrow> Car" where
  "drive c =
     c\<lparr> battery_charge := battery_charge c - energy_usage_per_tick c,
        distance_driven := distance_driven c + distance_per_tick c \<rparr>"

definition is_fully_charged :: "Car \<Rightarrow> bool" where
  "is_fully_charged c \<longleftrightarrow>
     battery_charge c + charge_speed_per_tick c > battery_capacity c"

definition is_sufficiently_charged :: "int \<Rightarrow> real \<Rightarrow> Car \<Rightarrow> bool" where
  "is_sufficiently_charged t total_duration c \<longleftrightarrow>
     (let remaining_time = total_duration - of_int t
      in battery_charge c > remaining_time * energy_usage_per_tick c)"

definition charge :: "int \<Rightarrow> real \<Rightarrow> Car \<Rightarrow> Car" where
  "charge t total_duration c =
     (let c1 = (if \<not> charging c
                then c\<lparr> charging := True,
                        number_of_charging_stops := number_of_charging_stops c + 1 \<rparr>
                else c);
          c2 = c1\<lparr> battery_charge := battery_charge c1 + charge_speed_per_tick c1 \<rparr>;
          c3 = c2\<lparr> battery_charge_total :=
                      battery_charge_total c2 + charge_speed_per_tick c2 \<rparr>
      in if is_fully_charged c3 \<or> is_sufficiently_charged t total_duration c3
         then c3\<lparr> charging := False \<rparr>
         else c3)"

text \<open>
  The branch \<open>Car.tick\<close> takes is decided by the condition of its \<open>if\<close>, read on the
  state the tick starts from. \<open>tick_kind\<close> names that branch, so that a run can be
  described by the sequence of its ticks' kinds.
\<close>

datatype tick_kind = Driving | Charging

definition tick_kind :: "Car \<Rightarrow> tick_kind" where
  "tick_kind c =
     (if charging c \<or> battery_charge c - energy_usage_per_tick c \<le> 0
      then Charging else Driving)"

definition Car_tick :: "int \<Rightarrow> real \<Rightarrow> Car \<Rightarrow> Car" where
  "Car_tick t total_duration c =
     (let c1 = (if charging c \<or> battery_charge c - energy_usage_per_tick c \<le> 0
                then charge t total_duration c
                else drive c)
      in c1\<lparr> time_history := time_history c1 @ [t],
             charge_level_history := charge_level_history c1 @ [battery_charge c1],
             distance_driven_history :=
               distance_driven_history c1 @ [distance_driven c1] \<rparr>)"

subsection \<open>The simulation loop\<close>

definition Simulation_init :: "real \<Rightarrow> real \<Rightarrow> Car \<Rightarrow> Simulation" where
  "Simulation_init tf total_duration c =
     \<lparr> time = 1, sim_time_factor = tf, duration = total_duration, car = c \<rparr>"

definition is_done :: "Simulation \<Rightarrow> bool" where
  "is_done s \<longleftrightarrow> of_int (time s) > duration s"

definition Simulation_tick :: "Simulation \<Rightarrow> Simulation" where
  "Simulation_tick s =
     s\<lparr> car := Car_tick (time s) (duration s) (car s), time := time s + 1 \<rparr>"

text \<open>
  The \<open>while not self.is_done(): self.tick()\<close> loop of \<open>Simulation.start\<close>. It is a
  total function: the tick counter grows by one per iteration and the loop stops once it
  passes the duration.
\<close>

function run_loop :: "Simulation \<Rightarrow> Simulation" where
  "run_loop s = (if is_done s then s else run_loop (Simulation_tick s))"
  by pat_completeness auto
termination
  by (relation "measure (\<lambda>s. nat (\<lfloor>duration s\<rfloor> + 1 - time s))")
     (auto simp: is_done_def Simulation_tick_def, linarith)

declare run_loop.simps [simp del]

text \<open>
  The kinds of the ticks the loop executes from \<open>s\<close> on, in order: the same recursion
  as \<open>run_loop\<close>, collecting the branch of each tick instead of the final state.
\<close>

function loop_trace :: "Simulation \<Rightarrow> tick_kind list" where
  "loop_trace s =
     (if is_done s then [] else tick_kind (car s) # loop_trace (Simulation_tick s))"
  by pat_completeness auto
termination
  by (relation "measure (\<lambda>s. nat (\<lfloor>duration s\<rfloor> + 1 - time s))")
     (auto simp: is_done_def Simulation_tick_def, linarith)

declare loop_trace.simps [simp del]

text \<open>
  The states the loop passes through: \<open>reaches s0 ks s\<close> holds when the loop, started
  in \<open>s0\<close>, is in state \<open>s\<close> after \<open>length ks\<close> iterations whose ticks had the
  kinds \<open>ks\<close>.
\<close>

inductive reaches :: "Simulation \<Rightarrow> tick_kind list \<Rightarrow> Simulation \<Rightarrow> bool"
  for s0 :: Simulation where
  reaches_init: "reaches s0 [] s0"
| reaches_tick:
    "reaches s0 ks s \<Longrightarrow> \<not> is_done s \<Longrightarrow>
     reaches s0 (ks @ [tick_kind (car s)]) (Simulation_tick s)"

code_pred reaches .

subsection \<open>The report\<close>

text \<open>
  Python's \<open>/\<close> raises \<open>ZeroDivisionError\<close> on a zero divisor; HOL's division
  returns 0 there, so the check is written out.
\<close>

definition py_truediv :: "real \<Rightarrow> real \<Rightarrow> py_error + real" where
  "py_truediv a b = (if b = 0 then Inl ZeroDivisionError else Inr (a / b))"

text \<open>The first statement of \<open>Car.status_text\<close>: a conditional expression on the
  truthiness of \<open>distance_driven\<close>.\<close>

definition energy_per_km :: "Car \<Rightarrow> py_error + real" where
  "energy_per_km c =
     (if distance_driven c \<noteq> 0
      then py_truediv (battery_charge_total c - battery_charge c) (distance_driven c)
      else Inr 0)"

fun collect :: "(py_error + real) list \<Rightarrow> py_error + real list" where
  "collect [] = Inr []"
| "collect (Inl e # rs) = Inl e"
| "collect (Inr v # rs) = (case collect rs of Inl e \<Rightarrow> Inl e | Inr vs \<Rightarrow> Inr (v # vs))"

text \<open>
  \<open>Car.status_text\<close> up to formatting: the numbers substituted into the template, in
  the template's order, or the error of the first division that raises.
\<close>

definition status_text :: "Car \<Rightarrow> real \<Rightarrow> py_error + real list" where
  "status_text c dur =
     (case energy_per_km c of
        Inl e \<Rightarrow> Inl e
      | Inr epk \<Rightarrow>
          collect
            [Inr (battery_capacity c),
             Inr (battery_charge c),
             Inr (battery_charge_total c),
             py_truediv (charge_speed_per_tick c) (time_factor c),
             Inr (of_int (number_of_charging_stops c)),
             py_truediv (energy_usage_per_tick c) (time_factor c),
             Inr (energy_usage_per_tick c),
             Inr epk,
             Inr (distance_per_tick c),
             Inr (distance_driven c),
             py_truediv (distance_per_tick c) (time_factor c),
             (case py_truediv (distance_driven c) dur of
                Inl e \<Rightarrow> Inl e
              | Inr q \<Rightarrow> py_truediv q (time_factor c)),
             Inr (time_factor c),
             py_truediv 1 (time_factor c)])"

text \<open>
  \<open>Simulation.start\<close>: the report before the loop, the loop, the report after it.
  Printing and plotting change no state; a report that raises ends the run.
\<close>

definition start :: "Simulation \<Rightarrow> py_error + Simulation" where
  "start s =
     (case status_text (car s) (duration s) of
        Inl e \<Rightarrow> Inl e
      | Inr _ \<Rightarrow>
          (let s' = run_loop s
           in case status_text (car s') (duration s') of
                Inl e \<Rightarrow> Inl e
              | Inr _ \<Rightarrow> Inr s'))"

subsection \<open>Charging stops as runs of charging ticks\<close>

text \<open>
  The number of maximal contiguous runs of charging ticks in a sequence of tick kinds:
  a run starts at every charging tick that is the first of the sequence or follows a
  driving tick. The first argument is the kind of the tick before the sequence.
\<close>

fun sessions_after :: "tick_kind \<Rightarrow> tick_kind list \<Rightarrow> nat" where
  "sessions_after prev [] = 0"
| "sessions_after prev (k # ks) =
     (if k = Charging \<and> prev \<noteq> Charging then 1 else 0) + sessions_after k ks"

definition charging_sessions :: "tick_kind list \<Rightarrow> nat" where
  "charging_sessions ks = sessions_after Driving ks"

subsection \<open>Example runs\<close>

text \<open>
  An hourly-tick run at 70 km/h over ten hours, one at 250 km/h over two hours, and one
  at 250 km/h over one hour with a charger of power 0.
\<close>

abbreviation motorway_run :: Simulation where
  "motorway_run \<equiv> Simulation_init 1 10 (Car_init 1 21000 70)"

abbreviation racing_run :: Simulation where
  "racing_run \<equiv> Simulation_init 1 2 (Car_init 1 21000 250)"


section \<open>Properties\<close>

subsection \<open>What one tick changes\<close>

lemma Car_tick_consts:
  "energy_usage_per_tick (Car_tick t d c) = energy_usage_per_tick c"
  "charge_speed_per_tick (Car_tick t d c) = charge_speed_per_tick c"
  "battery_capacity (Car_tick t d c) = battery_capacity c"
  "distance_per_tick (Car_tick t d c) = distance_per_tick c"
  "time_factor (Car_tick t d c) = time_factor c"
  by (simp_all add: Car_tick_def charge_def drive_def Let_def)

lemma Car_tick_history:
  "time_history (Car_tick t d c) = time_history c @ [t]"
  "charge_level_history (Car_tick t d c) =
     charge_level_history c @ [battery_charge (Car_tick t d c)]"
  "distance_driven_history (Car_tick t d c) =
     distance_driven_history c @ [distance_driven (Car_tick t d c)]"
  by (simp_all add: Car_tick_def charge_def drive_def Let_def)

lemma Simulation_tick_fields:
  "time (Simulation_tick s) = time s + 1"
  "duration (Simulation_tick s) = duration s"
  "car (Simulation_tick s) = Car_tick (time s) (duration s) (car s)"
  by (simp_all add: Simulation_tick_def)

lemma is_done_floor: "is_done s \<longleftrightarrow> \<not> time s \<le> \<lfloor>duration s\<rfloor>"
  by (simp add: is_done_def le_floor_iff not_le)

text \<open>
  C1. A tick is a charging tick exactly when the charging flag is set or one more
  driving tick would leave no charge, both read on the state the tick starts from.
  A charging tick adds the charge rate to the battery and to the cumulative charge and
  leaves the distance alone; a driving tick subtracts the energy of one tick from the
  battery, adds the distance of one tick to the distance driven, and changes neither the
  cumulative charge, nor the stop counter, nor the flag.
\<close>

theorem tick_policy:
  "(tick_kind c = Charging \<longleftrightarrow>
      charging c \<or> battery_charge c - energy_usage_per_tick c \<le> 0) \<and>
   (tick_kind c = Charging \<longrightarrow>
      battery_charge (Car_tick t d c) = battery_charge c + charge_speed_per_tick c \<and>
      battery_charge_total (Car_tick t d c) =
        battery_charge_total c + charge_speed_per_tick c \<and>
      distance_driven (Car_tick t d c) = distance_driven c) \<and>
   (tick_kind c = Driving \<longrightarrow>
      battery_charge (Car_tick t d c) = battery_charge c - energy_usage_per_tick c \<and>
      distance_driven (Car_tick t d c) = distance_driven c + distance_per_tick c \<and>
      battery_charge_total (Car_tick t d c) = battery_charge_total c \<and>
      number_of_charging_stops (Car_tick t d c) = number_of_charging_stops c \<and>
      charging (Car_tick t d c) = charging c)"
  by (simp add: tick_kind_def Car_tick_def charge_def drive_def Let_def)

theorem tick_policy_witness:
  "tick_kind (Car_init 1 21000 70) = Driving \<and>
   battery_charge (Car_tick 1 5 (Car_init 1 21000 70)) =
     70000 - power_for_velocity (70 / 3.6) \<and>
   distance_driven (Car_tick 1 5 (Car_init 1 21000 70)) = 70 \<and>
   tick_kind ((Car_init 1 21000 70)\<lparr>charging := True\<rparr>) = Charging \<and>
   battery_charge (Car_tick 1 5 ((Car_init 1 21000 70)\<lparr>charging := True\<rparr>)) = 91000"
proof -
  have k1: "tick_kind (Car_init 1 21000 70) = Driving"
    by (simp add: tick_kind_def Car_init_def power_for_velocity_def)
  have k2: "tick_kind ((Car_init 1 21000 70)\<lparr>charging := True\<rparr>) = Charging"
    by (simp add: tick_kind_def)
  show ?thesis
    using k1 k2 tick_policy [of "Car_init 1 21000 70" 1 5]
      tick_policy [of "(Car_init 1 21000 70)\<lparr>charging := True\<rparr>" 1 5]
    by (simp add: Car_init_def)
qed

text \<open>
  C2. On a charging tick the battery first gains the charge rate; the tick then leaves
  the charging flag cleared exactly when, on that new charge, one more charge would
  exceed the capacity or the charge exceeds what the remaining ticks consume. Otherwise
  the flag is set after the tick.
\<close>

theorem charging_tick_clears_flag:
  assumes "tick_kind c = Charging"
  shows "battery_charge (Car_tick t d c) = battery_charge c + charge_speed_per_tick c \<and>
         (\<not> charging (Car_tick t d c) \<longleftrightarrow>
            battery_charge (Car_tick t d c) + charge_speed_per_tick c > battery_capacity c \<or>
            battery_charge (Car_tick t d c) > (d - of_int t) * energy_usage_per_tick c)"
proof -
  from assms have "charging c \<or> battery_charge c - energy_usage_per_tick c \<le> 0"
    by (simp add: tick_kind_def split: if_splits)
  then have "battery_charge (Car_tick t d c) = battery_charge (charge t d c) \<and>
             charging (Car_tick t d c) = charging (charge t d c)"
    by (simp add: Car_tick_def Let_def)
  then show ?thesis
    by (simp add: charge_def is_fully_charged_def is_sufficiently_charged_def Let_def)
qed

theorem charging_tick_clears_flag_witness:
  "tick_kind ((Car_init 1 21000 70)\<lparr>charging := True, battery_charge := 60000\<rparr>) = Charging \<and>
   \<not> charging (Car_tick 3 24
        ((Car_init 1 21000 70)\<lparr>charging := True, battery_charge := 60000\<rparr>)) \<and>
   tick_kind ((Car_init 1 21000 70)\<lparr>charging := True, battery_charge := 1000\<rparr>) = Charging \<and>
   charging (Car_tick 3 24
        ((Car_init 1 21000 70)\<lparr>charging := True, battery_charge := 1000\<rparr>))"
proof -
  have k1: "tick_kind ((Car_init 1 21000 70)\<lparr>charging := True, battery_charge := 60000\<rparr>)
              = Charging"
    by (simp add: tick_kind_def)
  have k2: "tick_kind ((Car_init 1 21000 70)\<lparr>charging := True, battery_charge := 1000\<rparr>)
              = Charging"
    by (simp add: tick_kind_def)
  show ?thesis
    using k1 k2 charging_tick_clears_flag [OF k1, of 3 24]
      charging_tick_clears_flag [OF k2, of 3 24]
    by (auto simp: Car_init_def power_for_velocity_def)
qed

text \<open>
  C8. At velocity 0 the physics function returns the standby power, 1000: the sum of
  the drag force and the rolling resistance is multiplied by the velocity.
\<close>

theorem power_for_velocity_zero: "power_for_velocity 0 = 1000"
  by (simp add: power_for_velocity_def)

text \<open>
  The report divides by the time factor and by the duration; it is produced whenever
  neither is zero.
\<close>

lemma status_text_ok:
  "time_factor c \<noteq> 0 \<Longrightarrow> dur \<noteq> 0 \<Longrightarrow> \<exists>vs. status_text c dur = Inr vs"
  by (simp add: status_text_def energy_per_km_def py_truediv_def)

text \<open>
  C9. The energy per kilometre of the report never raises, in any state of the car: it
  is 0 when no distance has been driven, and the cumulative charge minus the current
  charge, divided by the distance, otherwise. The whole report is produced, for every
  state of the car, when the time factor and the duration are not zero.
\<close>

theorem report_never_raises:
  "energy_per_km c =
     Inr (if distance_driven c = 0 then 0
          else (battery_charge_total c - battery_charge c) / distance_driven c) \<and>
   (time_factor c \<noteq> 0 \<and> dur \<noteq> 0 \<longrightarrow> (\<exists>vs. status_text c dur = Inr vs))"
  by (simp add: status_text_def energy_per_km_def py_truediv_def)

theorem report_never_raises_witness:
  "energy_per_km (car (Simulation_tick motorway_run)) =
     Inr (power_for_velocity (70 / 3.6) / 70) \<and>
   time_factor (car (Simulation_tick motorway_run)) \<noteq> 0 \<and> (10::real) \<noteq> 0 \<and>
   (\<exists>vs. status_text (car (Simulation_tick motorway_run)) 10 = Inr vs)"
proof -
  have a: "time_factor (car (Simulation_tick motorway_run)) \<noteq> 0"
    by (simp add: Simulation_tick_fields Car_tick_consts Simulation_init_def Car_init_def)
  have d: "distance_driven (car (Simulation_tick motorway_run)) = 70 \<and>
           battery_charge_total (car (Simulation_tick motorway_run)) -
             battery_charge (car (Simulation_tick motorway_run)) = power_for_velocity (70 / 3.6)"
    by (simp add: Simulation_init_def Simulation_tick_def Car_init_def Car_tick_def
      drive_def power_for_velocity_def Let_def)
  show ?thesis
    using a d report_never_raises [of "car (Simulation_tick motorway_run)" 10] by simp
qed

subsection \<open>The loop\<close>

lemma run_loop_time_history:
  "time_history (car (run_loop s)) = time_history (car s) @ [time s..\<lfloor>duration s\<rfloor>]"
proof (induction s rule: run_loop.induct)
  case (1 s)
  show ?case
  proof (cases "is_done s")
    case True
    then show ?thesis by (simp add: run_loop.simps [of s] is_done_floor)
  next
    case False
    then have le: "time s \<le> \<lfloor>duration s\<rfloor>" by (simp add: is_done_floor)
    have "time_history (car (run_loop s)) =
          time_history (car (run_loop (Simulation_tick s)))"
      using False by (simp add: run_loop.simps [of s])
    also have "\<dots> = (time_history (car s) @ [time s]) @ [time s + 1..\<lfloor>duration s\<rfloor>]"
      using "1.IH" [OF False] by (simp add: Simulation_tick_fields Car_tick_history)
    also have "\<dots> = time_history (car s) @ [time s..\<lfloor>duration s\<rfloor>]"
      using le by (simp add: upto_rec1 [of "time s"])
    finally show ?thesis .
  qed
qed

lemma run_loop_history_lengths:
  "length (charge_level_history (car (run_loop s))) =
     length (charge_level_history (car s)) + nat (\<lfloor>duration s\<rfloor> + 1 - time s) \<and>
   length (distance_driven_history (car (run_loop s))) =
     length (distance_driven_history (car s)) + nat (\<lfloor>duration s\<rfloor> + 1 - time s)"
proof (induction s rule: run_loop.induct)
  case (1 s)
  show ?case
  proof (cases "is_done s")
    case True
    then show ?thesis by (simp add: run_loop.simps [of s] is_done_floor)
  next
    case False
    then have le: "time s \<le> \<lfloor>duration s\<rfloor>" by (simp add: is_done_floor)
    have eq: "run_loop s = run_loop (Simulation_tick s)"
      using False by (simp add: run_loop.simps [of s])
    have n: "nat (\<lfloor>duration s\<rfloor> + 1 - time s) =
             Suc (nat (\<lfloor>duration s\<rfloor> + 1 - (time s + 1)))"
      using le by linarith
    show ?thesis
      using "1.IH" [OF False] unfolding eq n
      by (simp add: Simulation_tick_fields Car_tick_history)
  qed
qed

text \<open>
  \<open>Simulation.start\<close> returns the state the loop ends in when both reports are
  produced; with a duration of 0 the first report raises.
\<close>

lemma run_loop_consts:
  "duration (run_loop s) = duration s \<and> time_factor (car (run_loop s)) = time_factor (car s)"
proof (induction s rule: run_loop.induct)
  case (1 s)
  show ?case
  proof (cases "is_done s")
    case True
    then show ?thesis by (simp add: run_loop.simps [of s])
  next
    case False
    then have "run_loop s = run_loop (Simulation_tick s)"
      by (simp add: run_loop.simps [of s])
    then show ?thesis
      using "1.IH" [OF False] by (simp add: Simulation_tick_fields Car_tick_consts)
  qed
qed

lemma start_completes:
  assumes "time_factor (car s) \<noteq> 0" and "duration s \<noteq> 0"
  shows "start s = Inr (run_loop s)"
proof -
  obtain vs where a: "status_text (car s) (duration s) = Inr vs"
    using status_text_ok [OF assms] by blast
  have "time_factor (car (run_loop s)) \<noteq> 0" and "duration (run_loop s) \<noteq> 0"
    using assms by (simp_all add: run_loop_consts)
  then obtain ws where b: "status_text (car (run_loop s)) (duration (run_loop s)) = Inr ws"
    using status_text_ok by blast
  show ?thesis
    by (simp add: start_def a b Let_def)
qed

lemma start_zero_duration:
  "duration s = 0 \<Longrightarrow> start s = Inl ZeroDivisionError"
  by (simp add: start_def status_text_def energy_per_km_def py_truediv_def split: sum.splits)

text \<open>
  C4. For a duration of \<open>N \<ge> 0\<close> ticks the loop ends with exactly \<open>N\<close> entries in
  each of the three history lists, and the recorded tick indices are \<open>1, \<dots>, N\<close> in
  that order. Every tick, driving or charging, appends one entry to each list: the tick
  index, and the charge and the distance after the tick. When the time factor and
  \<open>N\<close> are not zero, \<open>Simulation.start\<close> returns that final state.
\<close>

theorem history_entries:
  assumes "0 \<le> N"
  shows "time_history (car (run_loop (Simulation_init tf (of_int N) (Car_init tf csph dph))))
           = [1..N] \<and>
         length (time_history
           (car (run_loop (Simulation_init tf (of_int N) (Car_init tf csph dph))))) = nat N \<and>
         length (charge_level_history
           (car (run_loop (Simulation_init tf (of_int N) (Car_init tf csph dph))))) = nat N \<and>
         length (distance_driven_history
           (car (run_loop (Simulation_init tf (of_int N) (Car_init tf csph dph))))) = nat N \<and>
         time_history (Car_tick t d c) = time_history c @ [t] \<and>
         charge_level_history (Car_tick t d c) =
           charge_level_history c @ [battery_charge (Car_tick t d c)] \<and>
         distance_driven_history (Car_tick t d c) =
           distance_driven_history c @ [distance_driven (Car_tick t d c)] \<and>
         (tf \<noteq> 0 \<and> N \<noteq> 0 \<longrightarrow>
            start (Simulation_init tf (of_int N) (Car_init tf csph dph)) =
              Inr (run_loop (Simulation_init tf (of_int N) (Car_init tf csph dph))))"
proof -
  let ?s = "Simulation_init tf (of_int N) (Car_init tf csph dph)"
  have st: "start ?s = Inr (run_loop ?s)" if "tf \<noteq> 0" "N \<noteq> 0"
    using that by (intro start_completes) (simp_all add: Simulation_init_def Car_init_def)
  have th: "time_history (car (run_loop ?s)) = [1..N]"
    using run_loop_time_history [of ?s] by (simp add: Simulation_init_def Car_init_def)
  have len: "length [1..N] = nat N" by simp
  have rest: "length (charge_level_history (car (run_loop ?s))) = nat N \<and>
              length (distance_driven_history (car (run_loop ?s))) = nat N"
    using run_loop_history_lengths [of ?s] by (simp add: Simulation_init_def Car_init_def)
  show ?thesis
    using th len rest st by (simp add: Car_tick_history)
qed

theorem history_entries_witness:
  "(0::int) \<le> 3 \<and>
   time_history (car (run_loop (Simulation_init 1 (of_int 3) (Car_init 1 21000 70))))
     = [1, 2, 3] \<and>
   length (charge_level_history
     (car (run_loop (Simulation_init 1 (of_int 3) (Car_init 1 21000 70))))) = 3 \<and>
   (1::real) \<noteq> 0 \<and> (3::int) \<noteq> 0 \<and>
   start (Simulation_init 1 (of_int 3) (Car_init 1 21000 70)) =
     Inr (run_loop (Simulation_init 1 (of_int 3) (Car_init 1 21000 70)))"
proof -
  have h: "(0::int) \<le> 3" by simp
  have u: "[1..3] = [1, 2, 3::int]" by (simp add: upto_rec1)
  show ?thesis
    using history_entries [OF h, of 1 21000 70] unfolding u by simp
qed

subsection \<open>Reachable states\<close>

lemma reaches_consts:
  assumes "reaches s0 ks s"
  shows "duration s = duration s0 \<and>
         time s = time s0 + int (length ks) \<and>
         energy_usage_per_tick (car s) = energy_usage_per_tick (car s0) \<and>
         charge_speed_per_tick (car s) = charge_speed_per_tick (car s0) \<and>
         battery_capacity (car s) = battery_capacity (car s0) \<and>
         distance_per_tick (car s) = distance_per_tick (car s0)"
  using assms
  by (induction rule: reaches.induct) (simp_all add: Simulation_tick_fields Car_tick_consts)







subsection \<open>Three concrete runs\<close>

text \<open>
  The runs used as examples below. In \<open>motorway_run\<close> one tick consumes about
  8162 Wh; in \<open>racing_run\<close> and \<open>dead_charger_run\<close> one tick consumes about
  139880 Wh, more than the battery holds, so that no tick can drive.
\<close>

lemmas eval_defs = Simulation_init_def Simulation_tick_def Car_init_def Car_tick_def
  charge_def drive_def is_fully_charged_def is_sufficiently_charged_def is_done_def
  tick_kind_def power_for_velocity_def Let_def

lemma motorway_first_tick: "reaches motorway_run [Driving] (Simulation_tick motorway_run)"
proof -
  have "reaches motorway_run ([] @ [tick_kind (car motorway_run)]) (Simulation_tick motorway_run)"
    by (rule reaches_tick [OF reaches_init]) (simp add: is_done_def Simulation_init_def)
  then show ?thesis by (simp add: eval_defs)
qed

lemma racing_first_tick: "reaches racing_run [Charging] (Simulation_tick racing_run)"
proof -
  have "reaches racing_run ([] @ [tick_kind (car racing_run)]) (Simulation_tick racing_run)"
    by (rule reaches_tick [OF reaches_init]) (simp add: is_done_def Simulation_init_def)
  then show ?thesis by (simp add: eval_defs)
qed

lemma racing_second_tick:
  "reaches racing_run [Charging, Charging] (Simulation_tick (Simulation_tick racing_run))"
proof -
  have "reaches racing_run ([Charging] @ [tick_kind (car (Simulation_tick racing_run))])
          (Simulation_tick (Simulation_tick racing_run))"
    by (rule reaches_tick [OF racing_first_tick]) (simp add: eval_defs)
  then show ?thesis by (simp add: eval_defs)
qed

subsection \<open>Energy bookkeeping\<close>









subsection \<open>The charge bound\<close>

lemma Car_tick_bound:
  assumes "0 \<le> energy_usage_per_tick c"
    and "energy_usage_per_tick c \<le> battery_capacity c"
    and "0 \<le> charge_speed_per_tick c"
    and "battery_charge c \<le> battery_capacity c + charge_speed_per_tick c"
    and "charging c \<longrightarrow> battery_charge c + charge_speed_per_tick c \<le> battery_capacity c"
  shows "battery_charge (Car_tick t d c) \<le> battery_capacity c + charge_speed_per_tick c \<and>
         (charging (Car_tick t d c) \<longrightarrow>
            battery_charge (Car_tick t d c) + charge_speed_per_tick c \<le> battery_capacity c)"
  using assms
  by (auto simp: Car_tick_def charge_def drive_def is_fully_charged_def
      is_sufficiently_charged_def Let_def)

lemma reaches_bound:
  assumes "reaches s0 ks s"
    and "0 \<le> energy_usage_per_tick (car s0)"
    and "energy_usage_per_tick (car s0) \<le> battery_capacity (car s0)"
    and "0 \<le> charge_speed_per_tick (car s0)"
    and "battery_charge (car s0) \<le> battery_capacity (car s0) + charge_speed_per_tick (car s0)"
    and "charging (car s0) \<longrightarrow>
           battery_charge (car s0) + charge_speed_per_tick (car s0) \<le> battery_capacity (car s0)"
  shows "battery_charge (car s) \<le> battery_capacity (car s0) + charge_speed_per_tick (car s0) \<and>
         (charging (car s) \<longrightarrow>
            battery_charge (car s) + charge_speed_per_tick (car s0) \<le> battery_capacity (car s0))"
  using assms
proof (induction rule: reaches.induct)
  case reaches_init
  then show ?case by simp
next
  case (reaches_tick ks s)
  note c = reaches_consts [OF reaches_tick.hyps(1)]
  have ih: "battery_charge (car s) \<le> battery_capacity (car s) + charge_speed_per_tick (car s) \<and>
         (charging (car s) \<longrightarrow>
            battery_charge (car s) + charge_speed_per_tick (car s) \<le> battery_capacity (car s))"
    using reaches_tick.IH reaches_tick.prems c by simp
  have "battery_charge (Car_tick (time s) (duration s) (car s))
          \<le> battery_capacity (car s) + charge_speed_per_tick (car s) \<and>
        (charging (Car_tick (time s) (duration s) (car s)) \<longrightarrow>
           battery_charge (Car_tick (time s) (duration s) (car s)) + charge_speed_per_tick (car s)
             \<le> battery_capacity (car s))"
    using ih reaches_tick.prems c by (intro Car_tick_bound) simp_all
  then show ?case
    using c by (simp add: Simulation_tick_fields)
qed

text \<open>
  C7, as the claim states it, fails when one tick of driving needs more energy than
  the battery holds: every tick of \<open>racing_run\<close> charges, none is held back by the
  capacity check (the flag is cleared after each tick and the next tick sets it again),
  and after two ticks the charge is 112000, above capacity plus one charge, 91000.
\<close>

theorem charge_bound_counterexample:
  "reaches racing_run [Charging, Charging] (Simulation_tick (Simulation_tick racing_run)) \<and>
   \<not> battery_charge (car (Simulation_tick (Simulation_tick racing_run))) \<le>
       battery_capacity (car (Simulation_tick (Simulation_tick racing_run))) +
       charge_speed_per_tick (car (Simulation_tick (Simulation_tick racing_run)))"
  using racing_second_tick by (simp add: eval_defs)

text \<open>
  C7, amended. In a run whose charge rate per tick is not negative and whose energy
  per tick lies between 0 and the battery capacity, the battery charge of every
  reachable state is at most the capacity plus one tick of charge.
\<close>

theorem charge_bound:
  assumes "reaches (Simulation_init tf dur (Car_init tf csph dph)) ks s"
    and "0 \<le> csph * tf"
    and "0 \<le> power_for_velocity (dph / 3.6) * tf"
    and "power_for_velocity (dph / 3.6) * tf \<le> 70000"
  shows "battery_charge (car s) \<le> 70000 + csph * tf"
  using reaches_bound [OF assms(1)] assms(2-4)
  by (simp add: Simulation_init_def Car_init_def)

theorem charge_bound_witness:
  "reaches motorway_run [Driving] (Simulation_tick motorway_run) \<and>
   (0::real) \<le> 21000 * 1 \<and>
   0 \<le> power_for_velocity (70 / 3.6) * 1 \<and>
   power_for_velocity (70 / 3.6) * 1 \<le> 70000 \<and>
   battery_charge (car (Simulation_tick motorway_run)) \<le> 70000 + 21000 * 1"
proof -
  have a: "(0::real) \<le> 21000 * 1" by simp
  have b: "0 \<le> power_for_velocity (70 / 3.6) * 1"
    by (simp add: power_for_velocity_def)
  have c: "power_for_velocity (70 / 3.6) * 1 \<le> 70000"
    by (simp add: power_for_velocity_def)
  show ?thesis
    using a b c motorway_first_tick charge_bound [OF motorway_first_tick a b c]
    by simp
qed

subsection \<open>Counting charging stops\<close>

lemma sessions_after_snoc:
  "sessions_after p (ks @ [k]) =
     sessions_after p ks + (if k = Charging \<and> last (p # ks) \<noteq> Charging then 1 else 0)"
  by (induction ks arbitrary: p) simp_all

lemma Car_tick_stops:
  "number_of_charging_stops (Car_tick t d c) =
     number_of_charging_stops c + (if tick_kind c = Charging \<and> \<not> charging c then 1 else 0)"
  by (simp add: tick_kind_def Car_tick_def charge_def drive_def Let_def)

lemma Car_tick_flag: "charging (Car_tick t d c) \<Longrightarrow> tick_kind c = Charging"
  by (simp add: tick_kind_def Car_tick_def charge_def drive_def Let_def split: if_splits)

lemma Car_tick_after_charge:
  assumes "tick_kind c = Charging"
  shows "battery_charge (Car_tick t d c) = battery_charge c + charge_speed_per_tick c"
    and "charging (Car_tick t d c) \<or>
         battery_charge (Car_tick t d c) + charge_speed_per_tick c > battery_capacity c \<or>
         battery_charge (Car_tick t d c) > (d - of_int t) * energy_usage_per_tick c"
proof -
  from assms have "charging c \<or> battery_charge c - energy_usage_per_tick c \<le> 0"
    by (simp add: tick_kind_def split: if_splits)
  then have eq: "battery_charge (Car_tick t d c) = battery_charge (charge t d c) \<and>
                 charging (Car_tick t d c) = charging (charge t d c)"
    by (simp add: Car_tick_def Let_def)
  show "battery_charge (Car_tick t d c) = battery_charge c + charge_speed_per_tick c"
    using eq by (simp add: charge_def Let_def)
  show "charging (Car_tick t d c) \<or>
         battery_charge (Car_tick t d c) + charge_speed_per_tick c > battery_capacity c \<or>
         battery_charge (Car_tick t d c) > (d - of_int t) * energy_usage_per_tick c"
    using eq
    by (simp add: charge_def is_fully_charged_def is_sufficiently_charged_def Let_def)
qed

lemma Car_tick_released:
  assumes k: "tick_kind c = Charging" and off: "\<not> charging (Car_tick t d c)"
    and more: "of_int (t + 1) \<le> d"
    and e0: "0 \<le> energy_usage_per_tick c"
    and fit: "energy_usage_per_tick c + charge_speed_per_tick c \<le> battery_capacity c"
  shows "tick_kind (Car_tick t d c) = Driving"
proof -
  let ?b = "battery_charge (Car_tick t d c)"
  let ?e = "energy_usage_per_tick c"
  from Car_tick_after_charge(2) [OF k, of t d] off
  have "?b + charge_speed_per_tick c > battery_capacity c \<or> ?b > (d - of_int t) * ?e"
    by simp
  then have "?b > ?e"
  proof
    assume "?b + charge_speed_per_tick c > battery_capacity c"
    with fit show ?thesis by simp
  next
    assume suff: "?b > (d - of_int t) * ?e"
    from more have "1 \<le> d - of_int t" by simp
    then have "1 * ?e \<le> (d - of_int t) * ?e"
      using e0 by (rule mult_right_mono)
    with suff show ?thesis by simp
  qed
  then show ?thesis
    using off by (simp add: tick_kind_def Car_tick_consts)
qed

lemma reaches_stops:
  assumes "reaches s0 ks s"
    and "\<not> charging (car s0)"
    and "0 \<le> energy_usage_per_tick (car s0)"
    and "energy_usage_per_tick (car s0) + charge_speed_per_tick (car s0)
           \<le> battery_capacity (car s0)"
  shows "number_of_charging_stops (car s) =
           number_of_charging_stops (car s0) + int (sessions_after Driving ks) \<and>
         (charging (car s) \<longrightarrow> last (Driving # ks) = Charging) \<and>
         (last (Driving # ks) = Charging \<and> \<not> charging (car s) \<and> \<not> is_done s \<longrightarrow>
            tick_kind (car s) = Driving)"
  using assms
proof (induction rule: reaches.induct)
  case reaches_init
  then show ?case by simp
next
  case (reaches_tick ks s)
  note c = reaches_consts [OF reaches_tick.hyps(1)]
  let ?k = "tick_kind (car s)"
  let ?c' = "Car_tick (time s) (duration s) (car s)"
  from reaches_tick.IH reaches_tick.prems
  have ih1: "number_of_charging_stops (car s) =
               number_of_charging_stops (car s0) + int (sessions_after Driving ks)"
    and ih2: "charging (car s) \<longrightarrow> last (Driving # ks) = Charging"
    and ih3: "last (Driving # ks) = Charging \<and> \<not> charging (car s) \<and> \<not> is_done s \<longrightarrow>
                ?k = Driving"
    by simp_all
  have fresh: "?k = Charging \<Longrightarrow> \<not> charging (car s) \<longleftrightarrow> last (Driving # ks) \<noteq> Charging"
    using ih2 ih3 reaches_tick.hyps(2) by auto
  have stops: "number_of_charging_stops ?c' =
                 number_of_charging_stops (car s0) + int (sessions_after Driving (ks @ [?k]))"
    unfolding Car_tick_stops sessions_after_snoc using ih1 fresh by auto
  have flag: "charging ?c' \<longrightarrow> last (Driving # ks @ [?k]) = Charging"
    using Car_tick_flag [of "time s" "duration s" "car s"] by simp
  have rel: "last (Driving # ks @ [?k]) = Charging \<and> \<not> charging ?c' \<and>
             \<not> is_done (Simulation_tick s) \<longrightarrow> tick_kind ?c' = Driving"
  proof (intro impI, elim conjE)
    assume k: "last (Driving # ks @ [?k]) = Charging" and off: "\<not> charging ?c'"
      and nd: "\<not> is_done (Simulation_tick s)"
    from k have k': "?k = Charging" by simp
    from nd have more: "of_int (time s + 1) \<le> duration s"
      by (simp add: is_done_def Simulation_tick_fields)
    show "tick_kind ?c' = Driving"
      using k' off more reaches_tick.prems c by (intro Car_tick_released) simp_all
  qed
  show ?case
    using stops flag rel by (simp add: Simulation_tick_fields)
qed

lemma reaches_run_loop:
  "reaches s0 ks s \<Longrightarrow> reaches s0 (ks @ loop_trace s) (run_loop s)"
proof (induction s arbitrary: ks rule: run_loop.induct)
  case (1 s)
  show ?case
  proof (cases "is_done s")
    case True
    then show ?thesis
      using "1.prems" by (simp add: run_loop.simps [of s] loop_trace.simps [of s])
  next
    case False
    have "reaches s0 (ks @ [tick_kind (car s)]) (Simulation_tick s)"
      using "1.prems" False by (rule reaches_tick)
    from "1.IH" [OF False this] show ?thesis
      using False by (simp add: run_loop.simps [of s] loop_trace.simps [of s])
  qed
qed

text \<open>
  C5, as the claim states it, fails on \<open>racing_run\<close>: its two ticks are charging
  ticks and form one contiguous run, but each of them finds the flag cleared and counts
  a stop of its own.
\<close>

theorem stops_are_sessions_counterexample:
  "loop_trace racing_run = [Charging, Charging] \<and>
   charging_sessions (loop_trace racing_run) = 1 \<and>
   number_of_charging_stops (car (run_loop racing_run)) = 2"
  by (simp add: run_loop.simps loop_trace.simps charging_sessions_def eval_defs)

text \<open>
  C5, amended. In a run whose energy per tick is not negative and, together with one
  tick of charge, fits into the battery, the stop counter at the end of the loop is the
  number of maximal contiguous runs of charging ticks among the ticks of the run.
\<close>

theorem stops_are_sessions:
  assumes "0 \<le> power_for_velocity (dph / 3.6) * tf"
    and "power_for_velocity (dph / 3.6) * tf + csph * tf \<le> 70000"
  shows "number_of_charging_stops
           (car (run_loop (Simulation_init tf dur (Car_init tf csph dph)))) =
         int (charging_sessions (loop_trace (Simulation_init tf dur (Car_init tf csph dph))))"
proof -
  let ?s0 = "Simulation_init tf dur (Car_init tf csph dph)"
  have "reaches ?s0 ([] @ loop_trace ?s0) (run_loop ?s0)"
    by (rule reaches_run_loop) (rule reaches_init)
  then have r: "reaches ?s0 (loop_trace ?s0) (run_loop ?s0)" by simp
  show ?thesis
    using reaches_stops [OF r] assms
    by (simp add: Simulation_init_def Car_init_def charging_sessions_def)
qed

theorem stops_are_sessions_witness:
  "0 \<le> power_for_velocity (70 / 3.6) * 1 \<and>
   power_for_velocity (70 / 3.6) * 1 + 21000 * 1 \<le> 70000 \<and>
   loop_trace motorway_run =
     [Driving, Driving, Driving, Driving, Driving, Driving, Driving, Driving,
      Charging, Driving] \<and>
   number_of_charging_stops (car (run_loop motorway_run)) = 1"
proof -
  have b: "0 \<le> power_for_velocity (70 / 3.6) * 1"
    by (simp add: power_for_velocity_def)
  have c: "power_for_velocity (70 / 3.6) * 1 + 21000 * 1 \<le> 70000"
    by (simp add: power_for_velocity_def)
  have tr: "loop_trace motorway_run =
     [Driving, Driving, Driving, Driving, Driving, Driving, Driving, Driving,
      Charging, Driving]"
    by (simp add: loop_trace.simps eval_defs)
  show ?thesis
    using b c tr stops_are_sessions [OF b c, of 10]
    by (simp add: charging_sessions_def)
qed

end
